theory Spec2Isabelle
  imports Main "HOL-Library.Multiset"
begin

section \<open>Rows, tables and the database\<close>

text \<open>
  The file \<^verbatim>\<open>django_improvements.py\<close> is a sequence of snippets that use an
  object-relational mapper. The mapper itself is not part of the file; what the
  functions of the file do with it is modelled on explicit tables.

  A Python \<^verbatim>\<open>str\<close> is a sequence of Unicode code points.
\<close>

type_synonym str = "nat list"

text \<open>
  \<^verbatim>\<open>str.upper()\<close> replaces every code point by its full upper-case mapping, which
  may be longer than one code point. The mapping table belongs to the Python runtime;
  it is the parameter \<open>up\<close>.
\<close>

definition upper :: "(nat \<Rightarrow> str) \<Rightarrow> str \<Rightarrow> str" where
  "upper up s = concat (map up s)"

text \<open>The ASCII part of the table: \<^verbatim>\<open>a\<close>..\<^verbatim>\<open>z\<close> go to \<^verbatim>\<open>A\<close>..\<^verbatim>\<open>Z\<close>.\<close>

definition ascii_upper :: "nat \<Rightarrow> str" where
  "ascii_upper c = (if 97 \<le> c \<and> c \<le> 122 then [c - 32] else [c])"

text \<open>
  Every model instance has a primary key. The models that the data migrations touch
  (\<^verbatim>\<open>Product\<close>, \<^verbatim>\<open>OldModel\<close>, \<^verbatim>\<open>NewModel\<close>) have a \<^verbatim>\<open>name\<close> column; their other
  columns are the extension of the record, so that both declarations of
  \<^verbatim>\<open>Product\<close> (lines 40 and 136) are covered.
\<close>

record model_row =
  pk :: nat

record named_row = model_row +
  name :: str

text \<open>
  \<^verbatim>\<open>UserProfile\<close> (line 24): \<^verbatim>\<open>user = OneToOneField(User)\<close> stores the primary key of
  the user and is unique; \<^verbatim>\<open>bio = TextField()\<close>.
\<close>

record user_profile = model_row +
  user_id :: nat
  bio :: str

text \<open>
  The database: one table per model that a function of the file reads or writes.
  A table is the list of its rows. \<^verbatim>\<open>User\<close> is declared by the framework
  (\<^verbatim>\<open>django.contrib.auth\<close>), so only its primary key is known here.
\<close>

record ('u, 'p, 'o, 'n) database =
  auth_user :: "'u model_row_scheme list"
  user_profile_tbl :: "user_profile list"
  product_tbl :: "'p named_row_scheme list"
  old_model_tbl :: "'o named_row_scheme list"
  new_model_tbl :: "'n named_row_scheme list"

datatype error =
    NameError string
  | SyntaxError nat
  | FieldError string
  | IntegrityError

subsection \<open>The operations of the mapper that the file calls\<close>

text \<open>\<^verbatim>\<open>Model.objects.all()\<close>, iterated: the rows of the table, fetched once.\<close>

definition objects_all :: "'r list \<Rightarrow> 'r list" where
  "objects_all t = t"

text \<open>
  \<^verbatim>\<open>instance.save()\<close>: the row with the instance's primary key is overwritten
  (\<^verbatim>\<open>UPDATE ... WHERE id = pk\<close>); when there is none, the instance is inserted.
\<close>

definition save :: "'a model_row_scheme \<Rightarrow> 'a model_row_scheme list \<Rightarrow> 'a model_row_scheme list" where
  "save r t =
     (if pk r \<in> set (map pk t) then map (\<lambda>x. if pk x = pk r then r else x) t
      else t @ [r])"

text \<open>The key an insertion gets: one more than the largest key of the table.\<close>

definition next_pk :: "'a model_row_scheme list \<Rightarrow> nat" where
  "next_pk t = Suc (fold max (map pk t) 0)"

section \<open>The data migrations\<close>

text \<open>
  Lines 74-78:
  \<^verbatim>\<open>
  def do_something(apps, schema_editor):
      Product = apps.get_model('myapp', 'Product')
      for product in Product.objects.all():
          product.name = product.name.upper()
          product.save()
  \<close>
\<close>

definition do_something ::
  "(nat \<Rightarrow> str) \<Rightarrow> ('u, 'p, 'o, 'n) database \<Rightarrow> ('u, 'p, 'o, 'n) database" where
  "do_something up db =
     fold (\<lambda>product d. d\<lparr>product_tbl := save (product\<lparr>name := upper up (name product)\<rparr>) (product_tbl d)\<rparr>)
       (objects_all (product_tbl db)) db"

text \<open>
  Lines 163-167:
  \<^verbatim>\<open>
  def copy_data(apps, schema_editor):
      OldModel = apps.get_model('myapp', 'OldModel')
      NewModel = apps.get_model('myapp', 'NewModel')
      for old_model in OldModel.objects.all():
          NewModel.objects.create(name=old_model.name)
  \<close>
  \<^verbatim>\<open>NewModel\<close> is declared nowhere in the file: the values its other columns get on
  insertion are the parameter \<open>dflt\<close>.
\<close>

definition NewModel_objects_create ::
  "'n \<Rightarrow> str \<Rightarrow> ('u, 'p, 'o, 'n) database \<Rightarrow> ('u, 'p, 'o, 'n) database" where
  "NewModel_objects_create dflt n db =
     db\<lparr>new_model_tbl :=
          new_model_tbl db @ [\<lparr>pk = next_pk (new_model_tbl db), name = n, \<dots> = dflt\<rparr>]\<rparr>"

definition copy_data ::
  "'n \<Rightarrow> ('u, 'p, 'o, 'n) database \<Rightarrow> ('u, 'p, 'o, 'n) database" where
  "copy_data dflt db =
     fold (\<lambda>old_model d. NewModel_objects_create dflt (name old_model) d)
       (objects_all (old_model_tbl db)) db"

section \<open>The signal receiver and the proxy manager\<close>



text \<open>
  Column values, and \<^verbatim>\<open>QuerySet.filter(k=v)\<close>: the keyword is resolved against the
  fields of the model; a keyword that names no field raises \<^verbatim>\<open>FieldError\<close>, otherwise
  the rows whose column equals the value are kept. The fields of \<^verbatim>\<open>User\<close> are declared
  by the framework, not by the file: the resolution of a field name to its column is
  the parameter \<open>user_fields\<close>.
\<close>

datatype val = VBool bool | VInt int | VStr str | VNull

definition filter_qs ::
  "(string \<Rightarrow> ('r \<Rightarrow> val) option) \<Rightarrow> string \<Rightarrow> val \<Rightarrow> 'r list \<Rightarrow> error + 'r list" where
  "filter_qs resolve k v rows =
     (case resolve k of
        None \<Rightarrow> Inl (FieldError k)
      | Some col \<Rightarrow> Inr (filter (\<lambda>r. col r = v) rows))"

text \<open>
  Lines 98-100:
  \<^verbatim>\<open>
  class EmployeeManager(models.Manager):
      def get_queryset(self):
          return super().get_queryset().filter(is_employee=True)
  \<close>
  The manager is attached to the proxy \<^verbatim>\<open>Employee(User)\<close> (line 105), so
  \<^verbatim>\<open>super().get_queryset()\<close> is every row of the table of \<^verbatim>\<open>User\<close>.
\<close>

definition EmployeeManager_get_queryset ::
  "(string \<Rightarrow> ('u model_row_scheme \<Rightarrow> val) option) \<Rightarrow> ('u, 'p, 'o, 'n) database
     \<Rightarrow> error + 'u model_row_scheme list" where
  "EmployeeManager_get_queryset user_fields db =
     filter_qs user_fields ''is_employee'' (VBool True) (objects_all (auth_user db))"

section \<open>The model declarations\<close>

text \<open>
  A model class as the file declares it: the line of the \<^verbatim>\<open>class\<close> statement, its
  name, its bases, the fields of its body and the two \<^verbatim>\<open>Meta\<close> options the file uses.
  Of a field, its kind and its size arguments are kept.
\<close>

datatype field =
    CharField nat
  | TextField
  | BooleanField
  | DecimalField nat nat
  | DateTimeField
  | OneToOneField string
  | ForeignKey string

record model_decl =
  line :: nat
  cls :: string
  bases :: "string list"
  declared :: "(string \<times> field) list"
  abstract :: bool
  proxy :: bool

definition TimestampMixin :: model_decl where
  "TimestampMixin =
     \<lparr>line = 11, cls = ''TimestampMixin'', bases = [''models.Model''],
      declared = [(''created_at'', DateTimeField), (''updated_at'', DateTimeField)],
      abstract = True, proxy = False\<rparr>"

definition Author :: model_decl where
  "Author =
     \<lparr>line = 18, cls = ''Author'', bases = [''TimestampMixin''],
      declared = [(''name'', CharField 100)], abstract = False, proxy = False\<rparr>"

definition UserProfile :: model_decl where
  "UserProfile =
     \<lparr>line = 24, cls = ''UserProfile'', bases = [''models.Model''],
      declared = [(''user'', OneToOneField ''User''), (''bio'', TextField)],
      abstract = False, proxy = False\<rparr>"

definition Product_40 :: model_decl where
  "Product_40 =
     \<lparr>line = 40, cls = ''Product'', bases = [''models.Model''],
      declared = [(''name'', CharField 100), (''is_active'', BooleanField)],
      abstract = False, proxy = False\<rparr>"

definition Order :: model_decl where
  "Order =
     \<lparr>line = 48, cls = ''Order'', bases = [''models.Model''],
      declared = [(''user'', ForeignKey ''User''), (''total'', DecimalField 10 2)],
      abstract = False, proxy = False\<rparr>"

definition Employee_102 :: model_decl where
  "Employee_102 =
     \<lparr>line = 102, cls = ''Employee'', bases = [''User''],
      declared = [], abstract = False, proxy = True\<rparr>"

definition Person :: model_decl where
  "Person =
     \<lparr>line = 111, cls = ''Person'', bases = [''models.Model''],
      declared = [(''first_name'', CharField 30), (''last_name'', CharField 30)],
      abstract = False, proxy = False\<rparr>"

definition Employee_115 :: model_decl where
  "Employee_115 =
     \<lparr>line = 115, cls = ''Employee'', bases = [''Person''],
      declared = [(''employee_id'', CharField 10)], abstract = False, proxy = False\<rparr>"

definition BaseModel :: model_decl where
  "BaseModel =
     \<lparr>line = 122, cls = ''BaseModel'', bases = [''models.Model''],
      declared = [(''created_at'', DateTimeField), (''updated_at'', DateTimeField)],
      abstract = True, proxy = False\<rparr>"

definition Customer :: model_decl where
  "Customer =
     \<lparr>line = 129, cls = ''Customer'', bases = [''BaseModel''],
      declared = [(''name'', CharField 100)], abstract = False, proxy = False\<rparr>"

definition Product_136 :: model_decl where
  "Product_136 =
     \<lparr>line = 136, cls = ''Product'', bases = [''models.Model''],
      declared = [(''name'', CharField 100), (''price'', DecimalField 5 2),
                  (''description'', TextField)],
      abstract = False, proxy = False\<rparr>"

text \<open>The model classes of the file, in the order of their declaration.\<close>

definition model_classes :: "model_decl list" where
  "model_classes =
     [TimestampMixin, Author, UserProfile, Product_40, Order, Employee_102, Person,
      Employee_115, BaseModel, Customer, Product_136]"

text \<open>
  Modelled from the spec: what the framework makes of a declaration is not in the
  file. The glossary of the specification says that a mixin is ``an abstract base
  declaration contributing fields/behavior to concrete models without its own storage
  table'' and that a proxy model is ``a model declaration that reuses an existing table
  but adds Python-side behavior only''.
\<close>

datatype storage = NoTable | OwnTable | TableOf string

definition storage :: "model_decl \<Rightarrow> storage" where
  "storage d =
     (if abstract d then NoTable
      else if proxy d then (case bases d of [] \<Rightarrow> NoTable | b # _ \<Rightarrow> TableOf b)
      else OwnTable)"

text \<open>
  Modelled from the spec: the fields an instance of class \<open>c\<close> carries are those its
  bases contribute, then its own. The declarations are listed latest first; the bases
  of a class are looked up among the classes declared before it, as the \<^verbatim>\<open>class\<close>
  statement does. A base that the file does not declare contributes nothing here.
\<close>

fun instance_fields :: "model_decl list \<Rightarrow> string \<Rightarrow> (string \<times> field) list" where
  "instance_fields [] c = []"
| "instance_fields (d # ds) c =
     (if cls d = c then concat (map (instance_fields ds) (bases d)) @ declared d
      else instance_fields ds c)"

section \<open>The module as a sequence of snippets\<close>

text \<open>
  Running a Python module binds names in the module's namespace, one top-level
  statement after the other. A statement is kept with its line, the name it binds and
  the names it reads when it runs: the bases, the decorators and the class body of a
  \<^verbatim>\<open>class\<close> or \<^verbatim>\<open>def\<close> statement (a function body runs only when called), the
  right-hand side of an assignment. Text that is not a Python statement is
  \<open>Unparsable\<close>.
\<close>

datatype binding = Imported string string | DefinedAt nat

datatype stmt =
    ImportFrom nat string "string list"
  | ClassDef nat string "string list"
  | FunctionDef nat string "string list"
  | Assign nat string "string list"
  | Expr nat "string list"
  | Unparsable nat

fun reads :: "stmt \<Rightarrow> string list" where
  "reads (ImportFrom l m ns) = []"
| "reads (ClassDef l n rs) = rs"
| "reads (FunctionDef l n rs) = rs"
| "reads (Assign l n rs) = rs"
| "reads (Expr l rs) = rs"
| "reads (Unparsable l) = []"

fun writes :: "stmt \<Rightarrow> (string \<times> binding) list" where
  "writes (ImportFrom l m ns) = map (\<lambda>n. (n, Imported m n)) ns"
| "writes (ClassDef l n rs) = [(n, DefinedAt l)]"
| "writes (FunctionDef l n rs) = [(n, DefinedAt l)]"
| "writes (Assign l n rs) = [(n, DefinedAt l)]"
| "writes (Expr l rs) = []"
| "writes (Unparsable l) = []"

type_synonym namespace = "string \<rightharpoonup> binding"

definition bind :: "namespace \<Rightarrow> (string \<times> binding) list \<Rightarrow> namespace" where
  "bind ns ws = fold (\<lambda>(n, b) e. e(n \<mapsto> b)) ws ns"

text \<open>A statement that reads an unbound name raises \<^verbatim>\<open>NameError\<close> and binds nothing.\<close>

definition exec_stmt :: "namespace \<Rightarrow> stmt \<Rightarrow> error + namespace" where
  "exec_stmt ns s =
     (case find (\<lambda>n. ns n = None) (reads s) of
        Some n \<Rightarrow> Inl (NameError n)
      | None \<Rightarrow> Inr (bind ns (writes s)))"

fun exec_stmts :: "namespace \<Rightarrow> stmt list \<Rightarrow> error + namespace" where
  "exec_stmts ns [] = Inr ns"
| "exec_stmts ns (s # ss) =
     (case exec_stmt ns s of Inl e \<Rightarrow> Inl e | Inr ns' \<Rightarrow> exec_stmts ns' ss)"

fun syntax_error :: "stmt list \<Rightarrow> nat option" where
  "syntax_error [] = None"
| "syntax_error (Unparsable l # ss) = Some l"
| "syntax_error (s # ss) = syntax_error ss"

text \<open>
  A snippet is compiled as a whole before any of it runs, so a snippet with text that
  does not parse raises \<^verbatim>\<open>SyntaxError\<close> at once. Snippets run one after the other in
  one namespace; the first error ends the run.
\<close>

definition exec_snippet :: "namespace \<Rightarrow> stmt list \<Rightarrow> error + namespace" where
  "exec_snippet ns ss =
     (case syntax_error ss of Some l \<Rightarrow> Inl (SyntaxError l) | None \<Rightarrow> exec_stmts ns ss)"



definition raised :: "error + 'a \<Rightarrow> error option" where
  "raised r = (case r of Inl e \<Rightarrow> Some e | Inr _ \<Rightarrow> None)"

definition snippet_writes :: "stmt list \<Rightarrow> (string \<times> binding) list" where
  "snippet_writes s = concat (map writes s)"

definition binds :: "string \<Rightarrow> stmt list \<Rightarrow> bool" where
  "binds n s = (n \<in> set (map fst (snippet_writes s)))"

fun class_name :: "stmt \<Rightarrow> string list" where
  "class_name (ClassDef l n rs) = [n]"
| "class_name s = []"

subsection \<open>The statements of the file\<close>

text \<open>
  Every import statement of the file: lines 1-6 at its head, and those that later
  snippets repeat or add. They read no name, so they always succeed; \<open>imports_ns\<close>
  is the namespace they leave.
\<close>

definition module_imports :: "stmt list" where
  "module_imports =
     [ImportFrom 1 ''django.db'' [''models''],
      ImportFrom 2 ''django.db.models'' [''F'', ''Q'', ''Count'', ''Case'', ''When''],
      ImportFrom 3 ''django.db.models.signals'' [''post_save''],
      ImportFrom 4 ''django.dispatch'' [''receiver''],
      ImportFrom 5 ''django.core.exceptions'' [''ValidationError''],
      ImportFrom 6 ''django.contrib.auth.models'' [''User''],
      ImportFrom 72 ''django.db'' [''migrations''],
      ImportFrom 92 ''django.db'' [''models''],
      ImportFrom 93 ''django.contrib.auth.models'' [''User''],
      ImportFrom 161 ''django.db'' [''migrations'', ''models''],
      ImportFrom 180 ''django.db'' [''migrations''],
      ImportFrom 201 ''django.db'' [''migrations'']]"

definition imports_ns :: namespace where
  "imports_ns = bind Map.empty (concat (map writes module_imports))"

text \<open>
  The snippets, each from its heading comment to the next one. Snippets 1 to 10 are
  numbered in the file; the six after them are headed by a title only.
\<close>

definition snippet_1 :: "stmt list" where
  "snippet_1 =
     [ClassDef 11 ''TimestampMixin'' [''models''],
      ClassDef 18 ''Author'' [''TimestampMixin'', ''models'']]"

definition snippet_2 :: "stmt list" where
  "snippet_2 =
     [ClassDef 24 ''UserProfile'' [''models'', ''User''],
      FunctionDef 29 ''create_user_profile'' [''receiver'', ''post_save'', ''User'']]"

definition snippet_3 :: "stmt list" where
  "snippet_3 =
     [ClassDef 36 ''ActiveProductManager'' [''models''],
      ClassDef 40 ''Product'' [''models'', ''ActiveProductManager'']]"

definition snippet_4 :: "stmt list" where
  "snippet_4 =
     [ClassDef 48 ''Order'' [''models'', ''User''],
      Expr 52 [''Order'', ''Case'', ''When'', ''F'', ''models'']]"

definition snippet_5 :: "stmt list" where
  "snippet_5 = [Assign 63 ''books'' [''Book'', ''Count'', ''Q'']]"

definition snippet_6 :: "stmt list" where
  "snippet_6 =
     [ImportFrom 72 ''django.db'' [''migrations''],
      FunctionDef 74 ''do_something'' [],
      ClassDef 80 ''Migration'' [''migrations'', ''do_something''],
      ImportFrom 92 ''django.db'' [''models''],
      ImportFrom 93 ''django.contrib.auth.models'' [''User'']]"

definition snippet_7 :: "stmt list" where
  "snippet_7 =
     [ClassDef 98 ''EmployeeManager'' [''models''],
      ClassDef 102 ''Employee'' [''User'', ''EmployeeManager'']]"

definition snippet_8 :: "stmt list" where
  "snippet_8 =
     [ClassDef 111 ''Person'' [''models''],
      ClassDef 115 ''Employee'' [''Person'', ''models'']]"

definition snippet_9 :: "stmt list" where
  "snippet_9 =
     [ClassDef 122 ''BaseModel'' [''models''],
      ClassDef 129 ''Customer'' [''BaseModel'', ''models'']]"

definition snippet_10 :: "stmt list" where
  "snippet_10 = [ClassDef 136 ''Product'' [''models'']]"

text \<open>Line 153 is a shell command line, not Python.\<close>

definition squashing_migrations :: "stmt list" where
  "squashing_migrations = [Unparsable 153]"

definition data_migrations :: "stmt list" where
  "data_migrations =
     [ImportFrom 161 ''django.db'' [''migrations'', ''models''],
      FunctionDef 163 ''copy_data'' [],
      ClassDef 169 ''Migration'' [''migrations'', ''copy_data'']]"

text \<open>
  Lines 182-186: the bodies of \<^verbatim>\<open>do_something\<close> and \<^verbatim>\<open>undo_something\<close> are a comment
  each, which is no body. Lines 203-213: the same for the three methods of
  \<^verbatim>\<open>CustomOperation\<close>.
\<close>

definition reversible_operations :: "stmt list" where
  "reversible_operations =
     [ImportFrom 180 ''django.db'' [''migrations''],
      Unparsable 182,
      Unparsable 185,
      ClassDef 188 ''Migration'' [''migrations'', ''do_something'', ''undo_something'']]"

definition custom_operations :: "stmt list" where
  "custom_operations =
     [ImportFrom 201 ''django.db'' [''migrations''],
      Unparsable 203,
      ClassDef 215 ''Migration'' [''migrations'', ''CustomOperation'']]"

definition dependency_management :: "stmt list" where
  "dependency_management = [ClassDef 228 ''Migration'' [''migrations'']]"

text \<open>Lines 242-243 are two sentences of prose.\<close>

definition merge_conflicts :: "stmt list" where
  "merge_conflicts = [Unparsable 242, Unparsable 243]"

definition snippets :: "stmt list list" where
  "snippets =
     [snippet_1, snippet_2, snippet_3, snippet_4, snippet_5, snippet_6, snippet_7,
      snippet_8, snippet_9, snippet_10, squashing_migrations, data_migrations,
      reversible_operations, custom_operations, dependency_management, merge_conflicts]"

definition class_names :: "string list" where
  "class_names = remdups (concat (map (\<lambda>s. concat (map class_name s)) snippets))"

section \<open>Example states\<close>

definition shop_db :: "(unit, unit, unit, unit) database" where
  "shop_db =
     \<lparr>auth_user = [], user_profile_tbl = [],
      product_tbl = [\<lparr>pk = 1, name = [97, 98]\<rparr>, \<lparr>pk = 2, name = [67, 100, 33]\<rparr>],
      old_model_tbl = [], new_model_tbl = []\<rparr>"



section \<open>Properties of the data migrations\<close>

lemma upper_append: "upper up (s @ t) = upper up s @ upper up t"
  by (simp add: upper_def)

lemma upper_idem:
  assumes "\<And>c. upper up (up c) = up c"
  shows "upper up (upper up s) = upper up s"
proof (induction s)
  case Nil
  show ?case by (simp add: upper_def)
next
  case (Cons c s)
  have "upper up (c # s) = up c @ upper up s" by (simp add: upper_def)
  then show ?case using Cons assms by (simp add: upper_append)
qed

lemma ascii_upper_fixed: "upper ascii_upper (ascii_upper c) = ascii_upper c"
  by (auto simp: upper_def ascii_upper_def)

text \<open>Saving a row whose key is in the table, the keys being distinct, replaces that row only.\<close>

lemma save_present:
  assumes "distinct (map pk (ds @ x # xs))" and "pk r = pk x"
  shows "save r (ds @ x # xs) = ds @ r # xs"
proof -
  have a: "map (\<lambda>y. if pk y = pk x then r else y) ds = ds"
    using assms(1) by (intro map_idI) (auto simp: image_iff)
  have b: "map (\<lambda>y. if pk y = pk x then r else y) xs = xs"
    using assms(1) by (intro map_idI) (auto simp: image_iff)
  show ?thesis using a b assms(2) by (simp add: save_def)
qed

text \<open>
  The loop of \<open>do_something\<close>, with the rows already visited (\<open>ds\<close>) and those
  still to visit (\<open>xs\<close>).
\<close>

lemma fold_save:
  assumes "\<And>x. pk (f x) = pk x"
  shows "distinct (map pk (ds @ xs)) \<Longrightarrow>
    fold (\<lambda>p d. d\<lparr>product_tbl := save (f p) (product_tbl d)\<rparr>) xs (db\<lparr>product_tbl := ds @ xs\<rparr>)
      = db\<lparr>product_tbl := ds @ map f xs\<rparr>"
proof (induction xs arbitrary: ds)
  case Nil
  show ?case by simp
next
  case (Cons x xs)
  have s: "save (f x) (ds @ x # xs) = ds @ f x # xs"
    using Cons.prems assms by (intro save_present) auto
  have d: "distinct (map pk ((ds @ [f x]) @ xs))"
    using Cons.prems assms by auto
  show ?case using Cons.IH [OF d] s by simp
qed

lemma do_something_map:
  assumes "distinct (map pk (product_tbl db))"
  shows "do_something up db =
    db\<lparr>product_tbl := map (\<lambda>p. p\<lparr>name := upper up (name p)\<rparr>) (product_tbl db)\<rparr>"
proof -
  have "fold (\<lambda>p d. d\<lparr>product_tbl := save (p\<lparr>name := upper up (name p)\<rparr>) (product_tbl d)\<rparr>)
          (product_tbl db) (db\<lparr>product_tbl := [] @ product_tbl db\<rparr>)
        = db\<lparr>product_tbl := [] @ map (\<lambda>p. p\<lparr>name := upper up (name p)\<rparr>) (product_tbl db)\<rparr>"
    using assms by (intro fold_save) auto
  then show ?thesis by (simp add: do_something_def objects_all_def)
qed

text \<open>
  Claim C6. When the primary keys of the \<^verbatim>\<open>Product\<close> table are distinct, running
  \<open>do_something\<close> leaves the database as it was except that the name of every
  product is the upper case of its previous name: the same rows in the same order,
  every other column of every product and every other table unchanged.
\<close>

theorem do_something_upper:
  assumes "distinct (map pk (product_tbl db))"
  shows "do_something up db =
    db\<lparr>product_tbl := map (\<lambda>p. p\<lparr>name := upper up (name p)\<rparr>) (product_tbl db)\<rparr>"
  using assms by (rule do_something_map)

theorem do_something_upper_witness:
  "distinct (map pk (product_tbl shop_db)) \<and>
   do_something ascii_upper shop_db =
     shop_db\<lparr>product_tbl := [\<lparr>pk = 1, name = [65, 66]\<rparr>, \<lparr>pk = 2, name = [67, 68, 33]\<rparr>]\<rparr>"
proof -
  have d: "distinct (map pk (product_tbl shop_db))"
    by (simp add: shop_db_def)
  show ?thesis
    using d do_something_upper [OF d, of ascii_upper]
    by (simp add: shop_db_def upper_def ascii_upper_def)
qed

text \<open>
  Claim C9. \<open>do_something\<close> is idempotent: when the primary keys of the
  \<^verbatim>\<open>Product\<close> table are distinct and the upper-case table of the runtime maps each of
  its own results to itself, running the migration twice leaves the same database as
  running it once.
\<close>

theorem do_something_idempotent:
  assumes "distinct (map pk (product_tbl db))"
    and "\<forall>c. upper up (up c) = up c"
  shows "do_something up (do_something up db) = do_something up db"
proof -
  let ?f = "\<lambda>p. p\<lparr>name := upper up (name p)\<rparr>"
  have m: "do_something up db = db\<lparr>product_tbl := map ?f (product_tbl db)\<rparr>"
    using assms(1) by (rule do_something_map)
  have "map pk (map ?f (product_tbl db)) = map pk (product_tbl db)" by simp
  then have d: "distinct (map pk (product_tbl (db\<lparr>product_tbl := map ?f (product_tbl db)\<rparr>)))"
    using assms(1) by (simp add: comp_def)
  have ui: "upper up (upper up s) = upper up s" for s
    using assms(2) by (intro upper_idem) simp
  show ?thesis
    unfolding m using do_something_map [OF d, of up] by (simp add: comp_def ui)
qed

theorem do_something_idempotent_witness:
  "distinct (map pk (product_tbl shop_db)) \<and>
   (\<forall>c. upper ascii_upper (ascii_upper c) = ascii_upper c) \<and>
   do_something ascii_upper (do_something ascii_upper shop_db) =
     do_something ascii_upper shop_db"
proof -
  have d: "distinct (map pk (product_tbl shop_db))"
    by (simp add: shop_db_def)
  have u: "\<forall>c. upper ascii_upper (ascii_upper c) = ascii_upper c"
    by (simp add: ascii_upper_fixed)
  show ?thesis
    using d u do_something_idempotent [OF d u] by simp
qed

text \<open>
  The upper-case migration loses information: two databases that differ in the case of
  a name are taken to the same database, so no reverse operation restores every state.
  The file gives the operations of its reversible migration (lines 182-186) no body.
\<close>

lemma upper_case_migration_not_injective:
  "shop_db\<lparr>product_tbl := [\<lparr>pk = 1, name = [97]\<rparr>]\<rparr> \<noteq> shop_db\<lparr>product_tbl := [\<lparr>pk = 1, name = [65]\<rparr>]\<rparr> \<and>
   do_something ascii_upper (shop_db\<lparr>product_tbl := [\<lparr>pk = 1, name = [97]\<rparr>]\<rparr>) =
   do_something ascii_upper (shop_db\<lparr>product_tbl := [\<lparr>pk = 1, name = [65]\<rparr>]\<rparr>)"
  by (simp add: do_something_def objects_all_def save_def upper_def ascii_upper_def shop_db_def)

lemma copy_fold:
  "\<exists>created.
     fold (\<lambda>old_model d. NewModel_objects_create dflt (name old_model) d) xs db =
       db\<lparr>new_model_tbl := new_model_tbl db @ created\<rparr>
     \<and> map name created = map name xs"
proof (induction xs arbitrary: db)
  case Nil
  show ?case by simp
next
  case (Cons x xs)
  let ?r = "\<lparr>pk = next_pk (new_model_tbl db), name = name x, \<dots> = dflt\<rparr>"
  let ?db1 = "NewModel_objects_create dflt (name x) db"
  obtain c where c:
    "fold (\<lambda>old_model d. NewModel_objects_create dflt (name old_model) d) xs ?db1 =
       ?db1\<lparr>new_model_tbl := new_model_tbl ?db1 @ c\<rparr>"
    "map name c = map name xs"
    using Cons.IH [of ?db1] by blast
  have "fold (\<lambda>old_model d. NewModel_objects_create dflt (name old_model) d) (x # xs) db =
       db\<lparr>new_model_tbl := new_model_tbl db @ (?r # c)\<rparr>"
    using c(1) by (simp add: NewModel_objects_create_def)
  moreover have "map name (?r # c) = map name (x # xs)"
    using c(2) by simp
  ultimately show ?case by blast
qed

text \<open>
  Claim C7. After \<open>copy_data\<close> the \<^verbatim>\<open>OldModel\<close> rows are unchanged, and the
  \<^verbatim>\<open>NewModel\<close> table is the previous one followed by one created row per
  \<^verbatim>\<open>OldModel\<close> row, in order, each with the name of its \<^verbatim>\<open>OldModel\<close> row; nothing
  else in the database changes.
\<close>

theorem copy_data_rows:
  "old_model_tbl (copy_data dflt db) = old_model_tbl db \<and>
   (\<exists>created. copy_data dflt db = db\<lparr>new_model_tbl := new_model_tbl db @ created\<rparr> \<and>
      map name created = map name (old_model_tbl db))"
proof -
  obtain c where c:
    "copy_data dflt db = db\<lparr>new_model_tbl := new_model_tbl db @ c\<rparr>"
    "map name c = map name (old_model_tbl db)"
    using copy_fold [of dflt "old_model_tbl db" db]
    unfolding copy_data_def objects_all_def by blast
  have "old_model_tbl (copy_data dflt db) = old_model_tbl db"
    by (simp add: c(1))
  then show ?thesis using c by blast
qed

section \<open>Properties of the receiver and the manager\<close>




lemma EmployeeManager_get_queryset_FieldError:
  "user_fields ''is_employee'' = None \<Longrightarrow>
   EmployeeManager_get_queryset user_fields db = Inl (FieldError ''is_employee'')"
  by (simp add: EmployeeManager_get_queryset_def filter_qs_def)



section \<open>Properties of the declarations\<close>

text \<open>
  Claim C8. \<^verbatim>\<open>TimestampMixin\<close> and \<^verbatim>\<open>BaseModel\<close> have no table; each declares
  \<^verbatim>\<open>created_at\<close> and \<^verbatim>\<open>updated_at\<close>, and an instance of \<^verbatim>\<open>Author\<close> or of
  \<^verbatim>\<open>Customer\<close> carries these two fields followed by the fields its own class declares.
\<close>

theorem abstract_bases_contribute_fields:
  "storage TimestampMixin = NoTable \<and> storage BaseModel = NoTable \<and>
   map fst (declared TimestampMixin) = [''created_at'', ''updated_at''] \<and>
   map fst (declared BaseModel) = [''created_at'', ''updated_at''] \<and>
   instance_fields (rev model_classes) ''Author'' = declared TimestampMixin @ declared Author \<and>
   instance_fields (rev model_classes) ''Customer'' = declared BaseModel @ declared Customer"
  by (simp add: storage_def model_classes_def TimestampMixin_def Author_def UserProfile_def
      Product_40_def Order_def Employee_102_def Person_def Employee_115_def BaseModel_def
      Customer_def Product_136_def)


section \<open>Properties of the module's namespace\<close>









text \<open>The namespace that the import statements leave.\<close>

lemma imports_ns_eval:
  "imports_ns n =
     (if n = ''migrations'' then Some (Imported ''django.db'' ''migrations'')
      else if n = ''models'' then Some (Imported ''django.db'' ''models'')
      else if n = ''User'' then Some (Imported ''django.contrib.auth.models'' ''User'')
      else if n = ''ValidationError'' then Some (Imported ''django.core.exceptions'' ''ValidationError'')
      else if n = ''receiver'' then Some (Imported ''django.dispatch'' ''receiver'')
      else if n = ''post_save'' then Some (Imported ''django.db.models.signals'' ''post_save'')
      else if n = ''When'' then Some (Imported ''django.db.models'' ''When'')
      else if n = ''Case'' then Some (Imported ''django.db.models'' ''Case'')
      else if n = ''Count'' then Some (Imported ''django.db.models'' ''Count'')
      else if n = ''Q'' then Some (Imported ''django.db.models'' ''Q'')
      else if n = ''F'' then Some (Imported ''django.db.models'' ''F'')
      else None)"
  by (simp add: imports_ns_def module_imports_def bind_def)

lemmas snippet_defs =
  snippet_1_def snippet_2_def snippet_3_def snippet_4_def snippet_5_def snippet_6_def
  snippet_7_def snippet_8_def snippet_9_def snippet_10_def squashing_migrations_def
  data_migrations_def reversible_operations_def custom_operations_def
  dependency_management_def merge_conflicts_def


text \<open>The class names that more than one snippet of the file binds.\<close>

lemma rebound_class_names:
  "filter (\<lambda>n. 1 < length (filter (binds n) snippets)) class_names =
     [''Employee'', ''Product'', ''Migration'']"
  by (simp add: class_names_def snippets_def binds_def snippet_writes_def snippet_defs)



text \<open>
  Claim C2. Run with every import of the module in place, snippet 5 (lines 63-67) stops
  with a \<^verbatim>\<open>NameError\<close>: it reads \<^verbatim>\<open>Book\<close>, which neither the snippet nor any import
  binds.
\<close>

theorem snippet_5_NameError:
  "exec_snippet imports_ns snippet_5 = Inl (NameError ''Book'')"
  by (simp add: exec_snippet_def exec_stmt_def imports_ns_eval snippet_5_def)

text \<open>
  Claim C10. What each snippet of the file raises when it is run with every import of
  the module in place: snippet 5 raises \<^verbatim>\<open>NameError\<close>, and the four snippets with text
  that is not Python raise \<^verbatim>\<open>SyntaxError\<close>; the other eleven raise nothing.
\<close>

theorem snippet_outcomes:
  "map (\<lambda>s. raised (exec_snippet imports_ns s)) snippets =
     [None, None, None, None, Some (NameError ''Book''), None, None, None, None, None,
      Some (SyntaxError 153), None, Some (SyntaxError 182), Some (SyntaxError 203), None,
      Some (SyntaxError 242)]"
  by (simp add: snippets_def raised_def exec_snippet_def exec_stmt_def bind_def imports_ns_eval
      snippet_defs)


end
